theory Spec2Isabelle
  imports Main "HOL-Library.Sublist" "HOL-Library.AList"
begin

section \<open>JavaScript values\<close>

text \<open>
  The values the modelled functions read and pass on. Numbers are integers (no claim
  depends on fractions or NaN); a function value is identified by its source text, which
  is also what string conversion yields for it; an object is the list of its own
  properties in insertion order, the first entry of a key being the one that is read.
\<close>

datatype jsval =
    Undefined
  | Null
  | Bool bool
  | Num int
  | Str string
  | Arr "jsval list"
  | Obj "(string \<times> jsval) list"
  | Fun string

text \<open>Truthiness, as \<^verbatim>\<open>!x\<close>, \<^verbatim>\<open>x || y\<close> and \<^verbatim>\<open>if (x)\<close> test it.\<close>

fun truthy :: "jsval \<Rightarrow> bool" where
  "truthy Undefined = False"
| "truthy Null = False"
| "truthy (Bool b) = b"
| "truthy (Num n) = (n \<noteq> 0)"
| "truthy (Str s) = (s \<noteq> [])"
| "truthy (Arr xs) = True"
| "truthy (Obj kvs) = True"
| "truthy (Fun f) = True"

text \<open>The \<^verbatim>\<open>typeof\<close> operator.\<close>

fun typeof :: "jsval \<Rightarrow> string" where
  "typeof Undefined = ''undefined''"
| "typeof Null = ''object''"
| "typeof (Bool b) = ''boolean''"
| "typeof (Num n) = ''number''"
| "typeof (Str s) = ''string''"
| "typeof (Arr xs) = ''object''"
| "typeof (Obj kvs) = ''object''"
| "typeof (Fun f) = ''function''"

text \<open>\<^verbatim>\<open>x instanceof Function\<close>.\<close>

fun instanceof_Function :: "jsval \<Rightarrow> bool" where
  "instanceof_Function (Fun f) = True"
| "instanceof_Function v = False"

text \<open>\<^verbatim>\<open>a || b\<close>.\<close>

definition js_or :: "jsval \<Rightarrow> jsval \<Rightarrow> jsval" where
  "js_or a b = (if truthy a then a else b)"

text \<open>
  Errors raised by the modelled code. Reading a property of \<^verbatim>\<open>undefined\<close> or
  \<^verbatim>\<open>null\<close> and calling a value that is not a function raise a TypeError;
  ArgumentError is the error class of rest-facade, with its message.
\<close>

datatype js_exception =
    TypeError string
  | ArgumentError string

text \<open>
  Property read \<^verbatim>\<open>v.k\<close>, for the property names the modelled code reads (none of them a
  built-in property of strings, arrays or functions): an object yields its own property
  or \<^verbatim>\<open>undefined\<close>, \<^verbatim>\<open>undefined\<close> and \<^verbatim>\<open>null\<close> raise, every other value yields
  \<^verbatim>\<open>undefined\<close>.
\<close>

fun get_prop :: "jsval \<Rightarrow> string \<Rightarrow> js_exception + jsval" where
  "get_prop Undefined k = Inl (TypeError (''Cannot read properties of undefined (reading '' @ k @ '')''))"
| "get_prop Null k = Inl (TypeError (''Cannot read properties of null (reading '' @ k @ '')''))"
| "get_prop (Obj kvs) k = Inr (case map_of kvs k of Some v \<Rightarrow> v | None \<Rightarrow> Undefined)"
| "get_prop v k = Inr Undefined"

section \<open>RolesManager\<close>

text \<open>
  The manager holds three sub-resources, each a retrying REST client on its own URL
  template: \<^verbatim>\<open>this.resource\<close> (\<^verbatim>\<open>/roles/:id\<close>), \<^verbatim>\<open>this.permissions\<close>
  (\<^verbatim>\<open>/roles/:id/permissions\<close>) and \<^verbatim>\<open>this.users\<close> (\<^verbatim>\<open>/roles/:id/users\<close>).
\<close>

datatype sub_resource = Resource | Permissions | Users

text \<open>
  What a manager method does: it either throws before any sub-resource is touched, or it
  makes exactly one call of a sub-resource method and returns what that call returns.
  The call is recorded with its receiver, its method name and its argument list.
\<close>

datatype manager_result =
    Throws js_exception
  | Delegates sub_resource string "jsval list"

text \<open>The two checks of \<^verbatim>\<open>params.id\<close> the three methods start with.\<close>

definition check_role_id :: "jsval \<Rightarrow> js_exception option" where
  "check_role_id params =
     (case get_prop params ''id'' of
        Inl e \<Rightarrow> Some e
      | Inr i \<Rightarrow>
          if \<not> truthy i then
            Some (ArgumentError ''The roleId passed in params cannot be null or undefined'')
          else if typeof i \<noteq> ''string'' then
            Some (ArgumentError ''The role Id has to be a string'')
          else None)"

definition addPermissions :: "jsval \<Rightarrow> jsval \<Rightarrow> jsval \<Rightarrow> manager_result" where
  "addPermissions params0 data0 cb =
     (let data = js_or data0 (Obj []);
          params = js_or params0 (Obj [])
      in case check_role_id params of
           Some e \<Rightarrow> Throws e
         | None \<Rightarrow>
             if truthy cb \<and> instanceof_Function cb
             then Delegates Permissions ''create'' [params, data, cb]
             else Delegates Permissions ''create'' [params, data])"

definition removePermissions :: "jsval \<Rightarrow> jsval \<Rightarrow> jsval \<Rightarrow> manager_result" where
  "removePermissions params0 data0 cb =
     (let data = js_or data0 (Obj []);
          params = js_or params0 (Obj [])
      in case check_role_id params of
           Some e \<Rightarrow> Throws e
         | None \<Rightarrow>
             if truthy cb \<and> instanceof_Function cb
             then Delegates Permissions ''delete'' [params, data, cb]
             else Delegates Permissions ''delete'' [params, data])"

definition assignUsers :: "jsval \<Rightarrow> jsval \<Rightarrow> jsval \<Rightarrow> manager_result" where
  "assignUsers params0 data0 cb =
     (let data = js_or data0 (Obj []);
          params = js_or params0 (Obj [])
      in case check_role_id params of
           Some e \<Rightarrow> Throws e
         | None \<Rightarrow>
             if truthy cb \<and> instanceof_Function cb
             then Delegates Permissions ''create'' [params, data, cb]
             else Delegates Users ''create'' [params, data])"

text \<open>\<^verbatim>\<open>getPermissions\<close> and \<^verbatim>\<open>getUsers\<close> pass both arguments on unchecked.\<close>

definition getPermissions :: "jsval \<Rightarrow> jsval \<Rightarrow> manager_result" where
  "getPermissions params callback = Delegates Permissions ''getAll'' [params, callback]"

definition getUsers :: "jsval \<Rightarrow> jsval \<Rightarrow> manager_result" where
  "getUsers params callback = Delegates Users ''getAll'' [params, callback]"

section \<open>String conversion\<close>

text \<open>
  What a template literal \<^verbatim>\<open>`${v}`\<close> yields for a value. Integers print in decimal
  (exact for the safe integers); an array prints its elements separated by commas, with
  \<^verbatim>\<open>undefined\<close> and \<^verbatim>\<open>null\<close> elements printed as nothing; a plain object prints
  as \<^verbatim>\<open>[object Object]\<close>; a function prints its source text.
\<close>

fun digits :: "nat \<Rightarrow> string" where
  "digits n = (if n < 10 then [char_of (48 + n)] else digits (n div 10) @ [char_of (48 + n mod 10)])"

fun join_comma :: "string list \<Rightarrow> string" where
  "join_comma [] = []"
| "join_comma [s] = s"
| "join_comma (s # t # ss) = s @ '','' @ join_comma (t # ss)"

fun js_to_string :: "jsval \<Rightarrow> string" where
  "js_to_string Undefined = ''undefined''"
| "js_to_string Null = ''null''"
| "js_to_string (Bool b) = (if b then ''true'' else ''false'')"
| "js_to_string (Num n) = (if n < 0 then ''-'' @ digits (nat (- n)) else digits (nat n))"
| "js_to_string (Str s) = s"
| "js_to_string (Arr xs) =
     join_comma (map (\<lambda>x. if x = Undefined \<or> x = Null then [] else js_to_string x) xs)"
| "js_to_string (Obj kvs) = ''[object Object]''"
| "js_to_string (Fun f) = f"

text \<open>\<^verbatim>\<open>s.includes(sub)\<close> on strings: \<open>sub\<close> occurs in \<open>s\<close> as a contiguous run.\<close>

fun str_includes :: "string \<Rightarrow> string \<Rightarrow> bool" where
  "str_includes [] sub = (sub = [])"
| "str_includes (c # cs) sub = (prefix sub (c # cs) \<or> str_includes cs sub)"

text \<open>The object a thrown exception is, as a rejection reason or a callback argument.\<close>

fun exception_obj :: "js_exception \<Rightarrow> jsval" where
  "exception_obj (TypeError m) = Obj [(''name'', Str ''TypeError''), (''message'', Str m)]"
| "exception_obj (ArgumentError m) = Obj [(''name'', Str ''ArgumentError''), (''message'', Str m)]"

section \<open>OAUthWithIDTokenValidation\<close>

definition HS256_IGNORE_VALIDATION_MESSAGE :: string where
  "HS256_IGNORE_VALIDATION_MESSAGE =
     ''Validation of `id_token` requires a `clientSecret` when using the HS256 algorithm. To ensure tokens are validated, please switch the signing algorithm to RS256 or provide a `clientSecret` in the constructor.''"

text \<open>
  The JWKS client held in \<^verbatim>\<open>this._jwksClient\<close>: the result of calling a factory with
  the configuration object \<^verbatim>\<open>{ jwksUri }\<close>. It is recorded as that call; the factory
  is the injected \<^verbatim>\<open>options.jwksClient\<close> or the \<^verbatim>\<open>jwks-rsa\<close> module.
\<close>

datatype jwks_client = JwksClient (factory: jsval) (jwksUri: string)

definition jwksClient_module :: jsval where
  "jwksClient_module = Fun ''jwks-rsa''"

record oauth_client =
  oauth :: jsval
  bypassIdTokenValidation :: jsval
  clientId :: jsval
  clientSecret :: jsval
  domain :: jsval
  supportedAlgorithms :: jsval
  jwksClient :: jwks_client

text \<open>
  A property read where the value read from is known to be neither \<^verbatim>\<open>undefined\<close> nor
  \<^verbatim>\<open>null\<close>, so that the read cannot raise: after a truthiness guard, or after an
  earlier read of the same value.
\<close>

definition read_prop :: "jsval \<Rightarrow> string \<Rightarrow> jsval" where
  "read_prop v k = (case get_prop v k of Inr x \<Rightarrow> x | Inl e \<Rightarrow> Undefined)"

text \<open>
  The constructor. The three guards throw; every field is then copied from
  \<^verbatim>\<open>options\<close> as it is (a missing one is \<^verbatim>\<open>undefined\<close>), and calling a factory
  that is not a function raises a TypeError. The factory called is taken to return the
  client.
\<close>

definition OAUthWithIDTokenValidation :: "jsval \<Rightarrow> jsval \<Rightarrow> js_exception + oauth_client" where
  "OAUthWithIDTokenValidation oauth_arg options =
     (if \<not> truthy oauth_arg then Inl (ArgumentError ''Missing OAuthAuthenticator param'')
      else if \<not> truthy options then Inl (ArgumentError ''Missing authenticator options'')
      else if typeof options \<noteq> ''object'' then
        Inl (ArgumentError ''The authenticator options must be an object'')
      else
        let make = js_or (read_prop options ''jwksClient'') jwksClient_module
        in if \<not> instanceof_Function make then
             Inl (TypeError ''(options.jwksClient || jwksClient) is not a function'')
           else
             Inr \<lparr> oauth = oauth_arg,
                   bypassIdTokenValidation = read_prop options ''__bypassIdTokenValidation'',
                   clientId = read_prop options ''clientId'',
                   clientSecret = read_prop options ''clientSecret'',
                   domain = read_prop options ''domain'',
                   supportedAlgorithms =
                     js_or (read_prop options ''supportedAlgorithms'') (Arr [Str ''HS256'', Str ''RS256'']),
                   jwksClient =
                     JwksClient make
                       (''https://'' @ js_to_string (read_prop options ''domain'') @ ''/.well-known/jwks.json'') \<rparr>)"

subsection \<open>The collaborators of \<^verbatim>\<open>create\<close>\<close>

text \<open>The state of a promise once the event loop has run dry.\<close>

datatype promise = Fulfilled jsval | Rejected jsval | Pending

text \<open>
  An error object of the \<^verbatim>\<open>jsonwebtoken\<close> library: \<^verbatim>\<open>jwt.verify\<close> hands its
  callback \<^verbatim>\<open>null\<close> or an Error with a string message.
\<close>

record js_error =
  err_name :: string
  err_message :: string

definition error_obj :: "js_error \<Rightarrow> jsval" where
  "error_obj e = Obj [(''name'', Str (err_name e)), (''message'', Str (err_message e))]"

text \<open>The decoded header of a token, as \<^verbatim>\<open>jwt.verify\<close> hands it to \<^verbatim>\<open>getKey\<close>.\<close>

record jwt_header =
  alg :: jsval
  kid :: jsval

text \<open>
  A key handed to \<^verbatim>\<open>jwt.verify\<close>: \<^verbatim>\<open>Buffer.from(secret, 'base64')\<close>, kept as the call
  it is, or a public key read from a JWKS signing key.
\<close>

datatype signing_key = BufferFromBase64 jsval | PublicKey jsval

text \<open>
  What \<^verbatim>\<open>getKey\<close> does with its callback: never calls it, calls it with an error, calls
  it with \<^verbatim>\<open>null\<close> and a key, or throws inside the resolver's callback.
\<close>

datatype key_outcome =
    KeyNoCallback
  | KeyError jsval
  | KeyValue signing_key
  | KeyThrows js_exception

text \<open>What \<^verbatim>\<open>getSigningKey(kid, cb)\<close> does with its callback.\<close>

datatype jwks_outcome = JwksNoCallback | JwksCallback jsval jsval

text \<open>What \<^verbatim>\<open>jwt.verify(token, getKey, options, cb)\<close> does with its callback.\<close>

datatype verify_outcome = NoCallback | Callback "js_error option"

record verify_options =
  algorithms :: jsval
  audience :: jsval
  issuer :: string
  organization :: "jsval option"
  nonce :: "jsval option"
  maxAge :: "jsval option"

text \<open>
  The code outside this file that \<^verbatim>\<open>create\<close> calls: the wrapped client's
  \<^verbatim>\<open>create(params, data)\<close>, the library's \<^verbatim>\<open>jwt.verify\<close>, the claims validator
  \<^verbatim>\<open>validateIdToken\<close> of \<^verbatim>\<open>./idToken\<close> (\<open>Some v\<close> when it throws \<open>v\<close>) and the
  JWKS client's \<^verbatim>\<open>getSigningKey\<close>. Each is a parameter: the theorems hold for every
  behaviour of theirs.
\<close>

record env =
  oauth_create :: "jsval \<Rightarrow> jsval \<Rightarrow> promise"
  jwt_verify :: "jsval \<Rightarrow> (jwt_header \<Rightarrow> key_outcome) \<Rightarrow> verify_options \<Rightarrow> verify_outcome"
  validateIdToken :: "jsval \<Rightarrow> verify_options \<Rightarrow> jsval option"
  getSigningKey :: "jwks_client \<Rightarrow> jsval \<Rightarrow> jwks_outcome"

subsection \<open>\<^verbatim>\<open>create\<close>\<close>

definition getKey :: "env \<Rightarrow> oauth_client \<Rightarrow> jwt_header \<Rightarrow> key_outcome" where
  "getKey E this header =
     (if alg header = Str ''HS256'' then
        if \<not> truthy (clientSecret this) then
          KeyError (Obj [(''message'', Str HS256_IGNORE_VALIDATION_MESSAGE)])
        else KeyValue (BufferFromBase64 (clientSecret this))
      else
        case getSigningKey E (jwksClient this) (kid header) of
          JwksNoCallback \<Rightarrow> KeyNoCallback
        | JwksCallback err key \<Rightarrow>
            if truthy err then KeyError err
            else
              (case get_prop key ''publicKey'' of
                 Inl e \<Rightarrow> KeyThrows e
               | Inr pk \<Rightarrow>
                   if truthy pk then KeyValue (PublicKey pk)
                   else KeyValue (PublicKey (read_prop key ''rsaPublicKey''))))"

text \<open>The options object built in the promise executor; a read of \<^verbatim>\<open>data\<close> may raise.\<close>

definition verification_options :: "oauth_client \<Rightarrow> jsval \<Rightarrow> js_exception + verify_options" where
  "verification_options this data =
     (case get_prop data ''organization'' of
        Inl e \<Rightarrow> Inl e
      | Inr org \<Rightarrow>
          (case get_prop data ''nonce'' of
             Inl e \<Rightarrow> Inl e
           | Inr non \<Rightarrow>
               (case get_prop data ''maxAge'' of
                  Inl e \<Rightarrow> Inl e
                | Inr age \<Rightarrow>
                    Inr \<lparr> algorithms = supportedAlgorithms this,
                          audience = clientId this,
                          issuer = ''https://'' @ js_to_string (domain this) @ ''/'',
                          organization = (if truthy org then Some org else None),
                          nonce = (if truthy non then Some non else None),
                          maxAge = (if truthy age then Some age else None) \<rparr>)))"

text \<open>The test that downgrades an error of \<^verbatim>\<open>jwt.verify\<close> to a warning.\<close>

definition hs256_ignored :: "js_error \<Rightarrow> bool" where
  "hs256_ignored e =
     (err_message e \<noteq> [] \<and> str_includes (err_message e) HS256_IGNORE_VALIDATION_MESSAGE)"

text \<open>
  What a run of \<^verbatim>\<open>createAndValidate\<close> has done: the state the promise ends in, the
  console warnings, and the calls of \<^verbatim>\<open>jwt.verify\<close> and of \<^verbatim>\<open>validateIdToken\<close>, each
  with the token and the options it was given.
\<close>

record validation_result =
  settled :: promise
  warnings :: "string list"
  verify_calls :: "(jsval \<times> verify_options) list"
  validate_calls :: "(jsval \<times> verify_options) list"

definition settle :: "promise \<Rightarrow> validation_result" where
  "settle p = \<lparr> settled = p, warnings = [], verify_calls = [], validate_calls = [] \<rparr>"

text \<open>The callback given to \<^verbatim>\<open>jwt.verify\<close>.\<close>

definition verify_callback ::
  "env \<Rightarrow> jsval \<Rightarrow> verify_options \<Rightarrow> jsval \<Rightarrow> js_error option \<Rightarrow> validation_result" where
  "verify_callback E token opts r err =
     (let validate = (\<lambda>w. case validateIdToken E token opts of
                             Some idTokenError \<Rightarrow>
                               (settle (Rejected idTokenError))
                                 \<lparr> warnings := w, validate_calls := [(token, opts)] \<rparr>
                           | None \<Rightarrow>
                               (settle (Fulfilled r))
                                 \<lparr> warnings := w, validate_calls := [(token, opts)] \<rparr>)
      in case err of
           None \<Rightarrow> validate []
         | Some e \<Rightarrow>
             if hs256_ignored e then validate [HS256_IGNORE_VALIDATION_MESSAGE]
             else settle (Rejected (error_obj e)))"

text \<open>The handler given to \<^verbatim>\<open>then\<close>, run on the response \<open>r\<close> of the exchange.\<close>

definition on_exchanged :: "env \<Rightarrow> oauth_client \<Rightarrow> jsval \<Rightarrow> jsval \<Rightarrow> validation_result" where
  "on_exchanged E this data r =
     (if truthy (bypassIdTokenValidation this) then settle (Fulfilled r)
      else
        case get_prop r ''id_token'' of
          Inl e \<Rightarrow> settle (Rejected (exception_obj e))
        | Inr token \<Rightarrow>
            if truthy token then
              (case verification_options this data of
                 Inl e \<Rightarrow> settle (Rejected (exception_obj e))
               | Inr opts \<Rightarrow>
                   (case jwt_verify E token (getKey E this) opts of
                      NoCallback \<Rightarrow> (settle Pending) \<lparr> verify_calls := [(token, opts)] \<rparr>
                    | Callback err \<Rightarrow>
                        (verify_callback E token opts r err) \<lparr> verify_calls := [(token, opts)] \<rparr>))
            else settle (Fulfilled r))"

definition createAndValidate :: "env \<Rightarrow> oauth_client \<Rightarrow> jsval \<Rightarrow> jsval \<Rightarrow> validation_result" where
  "createAndValidate E this params data =
     (case oauth_create E params data of
        Fulfilled r \<Rightarrow> on_exchanged E this data r
      | Rejected e \<Rightarrow> settle (Rejected e)
      | Pending \<Rightarrow> settle Pending)"

text \<open>
  Calling \<^verbatim>\<open>cb\<close> with an argument list: the invocations made, and what the call threw,
  if anything. \<open>run\<close> is the behaviour of \<^verbatim>\<open>cb\<close> when it is a function (\<open>Some v\<close> when
  it throws \<open>v\<close>); calling a value that is not a function raises a TypeError.
\<close>

definition invoke ::
  "jsval \<Rightarrow> (jsval list \<Rightarrow> jsval option) \<Rightarrow> jsval list \<Rightarrow> jsval list list \<times> jsval option" where
  "invoke cb run args =
     (if instanceof_Function cb then ([args], run args)
      else ([], Some (exception_obj (TypeError ''cb is not a function''))))"

text \<open>
  What the caller of \<^verbatim>\<open>create\<close> observes: the promise returned (\<open>None\<close> for
  \<^verbatim>\<open>undefined\<close>), the invocations of the callback in order, a rejection nobody handles,
  and what \<^verbatim>\<open>createAndValidate\<close> did.
\<close>

record create_result =
  returned :: "promise option"
  callback_calls :: "jsval list list"
  unhandled :: "jsval option"
  work :: validation_result

definition create ::
  "env \<Rightarrow> oauth_client \<Rightarrow> jsval \<Rightarrow> jsval \<Rightarrow> jsval \<Rightarrow> (jsval list \<Rightarrow> jsval option) \<Rightarrow> create_result" where
  "create E this params data cb run =
     (let v = createAndValidate E this params data in
      if \<not> truthy cb then
        \<lparr> returned = Some (settled v), callback_calls = [], unhandled = None, work = v \<rparr>
      else
        case settled v of
          Pending \<Rightarrow> \<lparr> returned = None, callback_calls = [], unhandled = None, work = v \<rparr>
        | Rejected e \<Rightarrow>
            (let (calls, thrown) = invoke cb run [e]
             in \<lparr> returned = None, callback_calls = calls, unhandled = thrown, work = v \<rparr>)
        | Fulfilled r \<Rightarrow>
            (let (calls, thrown) = invoke cb run [Null, r]
             in case thrown of
                  None \<Rightarrow> \<lparr> returned = None, callback_calls = calls, unhandled = None, work = v \<rparr>
                | Some e \<Rightarrow>
                    (let (calls', thrown') = invoke cb run [e]
                     in \<lparr> returned = None, callback_calls = calls @ calls', unhandled = thrown',
                           work = v \<rparr>)))"

text \<open>
  How the \<^verbatim>\<open>jsonwebtoken\<close> library reports an error \<open>k\<close> that the key callback handed
  back: a JsonWebTokenError whose message is a fixed prefix followed by \<^verbatim>\<open>k.message\<close>.
  It is used only as a stated assumption on \<open>jwt_verify\<close>.
\<close>

definition secret_callback_error :: "jsval \<Rightarrow> js_error" where
  "secret_callback_error k =
     \<lparr> err_name = ''JsonWebTokenError'',
       err_message = ''error in secret or public key callback: '' @ js_to_string (read_prop k ''message'') \<rparr>"

section \<open>Auth0RestClient\<close>

text \<open>
  The source file of Auth0RestClient is not among the sources; only its tests are. What
  the claims about it need is modelled from the spec (sections 4.1, 4.2 and 6) and from
  the path the test reads, \<^verbatim>\<open>err.originalError.response.request._header.authorization\<close>.
\<close>

text \<open>
  Modelled from the spec: the fixed redaction marker that replaces the value of an
  \<^verbatim>\<open>authorization\<close> entry (6). The sanitizer of Auth0RestClient is missing.
\<close>

definition REDACTED :: string where
  "REDACTED = ''[REDACTED]''"

text \<open>
  Modelled from the spec: locating an entry in the nested representation of the outbound
  request that an error may carry (6); \<open>None\<close> when a step of the path is absent. The
  sanitizer of Auth0RestClient is missing.
\<close>

fun get_path :: "jsval \<Rightarrow> string list \<Rightarrow> jsval option" where
  "get_path v [] = Some v"
| "get_path (Obj kvs) (k # ks) = (case map_of kvs k of Some w \<Rightarrow> get_path w ks | None \<Rightarrow> None)"
| "get_path v (k # ks) = None"

text \<open>
  Modelled from the spec: replacing the value of a located entry, everything else left
  as it is (6). The sanitizer of Auth0RestClient is missing.
\<close>

fun set_path :: "jsval \<Rightarrow> string list \<Rightarrow> jsval \<Rightarrow> jsval" where
  "set_path v [] new = new"
| "set_path (Obj kvs) (k # ks) new =
     (case map_of kvs k of
        Some w \<Rightarrow> Obj (AList.update k (set_path w ks new) kvs)
      | None \<Rightarrow> Obj kvs)"
| "set_path v (k # ks) new = v"

text \<open>
  Modelled from the spec: where the captured outbound request keeps its
  \<^verbatim>\<open>authorization\<close> header (6, and the test of the sanitizer). The sanitizer of
  Auth0RestClient is missing.
\<close>

definition authorization_path :: "string list" where
  "authorization_path = [''originalError'', ''response'', ''request'', ''_header'', ''authorization'']"

text \<open>
  Modelled from the spec: the error sanitization of Auth0RestClient, which is missing.
  The error's captured outbound request, if present, is inspected for an authorization
  header value; if found, its value is replaced by the marker (4.2).
\<close>

definition sanitizeErrorRequestData :: "jsval \<Rightarrow> jsval" where
  "sanitizeErrorRequestData err =
     (case get_path err authorization_path of
        Some v \<Rightarrow> set_path err authorization_path (Str REDACTED)
      | None \<Rightarrow> err)"

text \<open>
  Modelled from the spec: a call through Auth0RestClient, which is missing (4.2). The
  token provider's promise comes first; when it rejects, the call fails with the
  provider's error and the transport is not used. Otherwise the transport runs with the
  header \<^verbatim>\<open>Authorization: Bearer <token>\<close>. On failure the error is sanitized before
  it is returned; an error that carries no outbound request, as the provider's, comes
  out of that as it is. The transport is a parameter: any function from the header value
  to the state of its promise.
\<close>

definition authenticated_call :: "promise \<Rightarrow> (string \<Rightarrow> promise) \<Rightarrow> promise" where
  "authenticated_call provider transport =
     (case provider of
        Rejected e \<Rightarrow> Rejected (sanitizeErrorRequestData e)
      | Pending \<Rightarrow> Pending
      | Fulfilled access_token \<Rightarrow>
          (case transport (''Bearer '' @ js_to_string access_token) of
             Rejected e \<Rightarrow> Rejected (sanitizeErrorRequestData e)
           | Fulfilled d \<Rightarrow> Fulfilled d
           | Pending \<Rightarrow> Pending))"

text \<open>
  Modelled from the spec: the characters that strict percent-encoding leaves as they
  are; the request encoder of Auth0RestClient is missing. The spec (4.1) names no
  character set beyond saying that \<^verbatim>\<open>/\<close>, \<^verbatim>\<open>|\<close> and other reserved characters are
  escaped: the set taken is that of \<^verbatim>\<open>encodeURIComponent\<close>, letters, digits and
  \<^verbatim>\<open>- _ . ! ~ * ' ( )\<close>.
\<close>

definition alphanumeric :: "char \<Rightarrow> bool" where
  "alphanumeric c =
     (let n = (of_char c :: nat)
      in (48 \<le> n \<and> n \<le> 57) \<or> (65 \<le> n \<and> n \<le> 90) \<or> (97 \<le> n \<and> n \<le> 122))"

text \<open>Modelled from the spec: the unreserved characters, as said for \<open>alphanumeric\<close>.\<close>

definition unreserved :: "char \<Rightarrow> bool" where
  "unreserved c = (alphanumeric c \<or> c \<in> set ''-_.!~*()'' \<or> c = CHR 0x27)"

text \<open>
  Modelled from the spec: an upper-case hexadecimal digit, as in the \<^verbatim>\<open>%7C\<close> and
  \<^verbatim>\<open>%2F\<close> of the spec's example (8). The request encoder is missing.
\<close>

definition hex_digit :: "nat \<Rightarrow> char" where
  "hex_digit n = (if n < 10 then char_of (48 + n) else char_of (55 + n))"

text \<open>
  Modelled from the spec: strict percent-encoding of one byte (4.1): an unreserved
  character stays, every other byte becomes \<^verbatim>\<open>%XX\<close>. The request encoder is missing.
\<close>

definition percent_encode_char :: "char \<Rightarrow> string" where
  "percent_encode_char c =
     (if unreserved c then [c]
      else [CHR ''%'', hex_digit ((of_char c :: nat) div 16), hex_digit ((of_char c :: nat) mod 16)])"

text \<open>
  Modelled from the spec: strict percent-encoding of an identifier (4.1). The request
  encoder is missing.
\<close>

definition encode_strict :: "string \<Rightarrow> string" where
  "encode_strict s = concat (map percent_encode_char s)"

text \<open>
  Modelled from the spec: substitution of a named placeholder of a URL template (3,
  4.1); the request encoder is missing. The first occurrence of the placeholder \<open>ph\<close>
  that is not the start of a longer name is replaced by \<open>v\<close>.
\<close>

fun substitute :: "string \<Rightarrow> string \<Rightarrow> string \<Rightarrow> string" where
  "substitute ph v [] = []"
| "substitute ph v (c # cs) =
     (if prefix ph (c # cs)
         \<and> (case drop (length ph) (c # cs) of [] \<Rightarrow> True | d # ds \<Rightarrow> \<not> alphanumeric d \<and> d \<noteq> CHR ''_'')
      then v @ drop (length ph) (c # cs)
      else c # substitute ph v cs)"

text \<open>
  Modelled from the spec: the concrete request path and query the encoder produces
  (4.1). The request encoder is missing.
\<close>

record request_target =
  path :: string
  query :: string

text \<open>
  Modelled from the spec: the request encoder of Auth0RestClient, which is missing
  (4.1). The value of the identifier placeholder \<^verbatim>\<open>:id\<close> is substituted with strict
  percent-encoding; every other parameter is handed to the transport's default query
  encoding, a parameter here. The spec does not say what a placeholder without a value
  becomes: the template is then left as it is.
\<close>

definition encode_request ::
  "((string \<times> jsval) list \<Rightarrow> string) \<Rightarrow> string \<Rightarrow> (string \<times> jsval) list \<Rightarrow> request_target" where
  "encode_request default_query template params =
     \<lparr> path = (case map_of params ''id'' of
                 Some v \<Rightarrow> substitute '':id'' (encode_strict (js_to_string v)) template
               | None \<Rightarrow> template),
       query = default_query (filter (\<lambda>(k, v). k \<noteq> ''id'') params) \<rparr>"

section \<open>Concrete inputs\<close>

text \<open>A client as the constructor builds it from a domain and a client id, with no secret.\<close>

definition example_options :: jsval where
  "example_options = Obj [(''domain'', Str ''tenant.auth0.com''), (''clientId'', Str ''client-1'')]"

definition example_client :: oauth_client where
  "example_client =
     \<lparr> oauth = Obj [],
       bypassIdTokenValidation = Undefined,
       clientId = Str ''client-1'',
       clientSecret = Undefined,
       domain = Str ''tenant.auth0.com'',
       supportedAlgorithms = Arr [Str ''HS256'', Str ''RS256''],
       jwksClient = JwksClient jwksClient_module ''https://tenant.auth0.com/.well-known/jwks.json'' \<rparr>"

definition example_response :: jsval where
  "example_response = Obj [(''access_token'', Str ''at''), (''id_token'', Str ''h.p.s'')]"

definition example_options_built :: verify_options where
  "example_options_built =
     \<lparr> algorithms = Arr [Str ''HS256'', Str ''RS256''],
       audience = Str ''client-1'',
       issuer = ''https://tenant.auth0.com/'',
       organization = None, nonce = None, maxAge = None \<rparr>"

text \<open>An exchange that succeeds, a token whose signature \<^verbatim>\<open>jwt.verify\<close> refuses.\<close>

definition tampered_env :: env where
  "tampered_env =
     \<lparr> oauth_create = (\<lambda>params data. Fulfilled example_response),
       jwt_verify = (\<lambda>token key opts.
          Callback (Some \<lparr> err_name = ''JsonWebTokenError'', err_message = ''invalid signature'' \<rparr>)),
       validateIdToken = (\<lambda>token opts. None),
       getSigningKey = (\<lambda>client k. JwksNoCallback) \<rparr>"

text \<open>
  An exchange that succeeds with a token whose header names HS256; \<^verbatim>\<open>jwt.verify\<close>
  asks the key callback and reports its error as the library does; the claims validator
  refuses the token.
\<close>

definition hs256_header :: jwt_header where
  "hs256_header = \<lparr> alg = Str ''HS256'', kid = Undefined \<rparr>"

definition issuer_mismatch :: jsval where
  "issuer_mismatch = Obj [(''name'', Str ''Error''), (''message'', Str ''Issuer (iss) claim mismatch in the ID token'')]"

definition hs256_env :: env where
  "hs256_env =
     \<lparr> oauth_create = (\<lambda>params data. Fulfilled example_response),
       jwt_verify = (\<lambda>token key opts.
          case key hs256_header of
            KeyError k \<Rightarrow> Callback (Some (secret_callback_error k))
          | KeyNoCallback \<Rightarrow> NoCallback
          | KeyValue v \<Rightarrow> Callback None
          | KeyThrows e \<Rightarrow> NoCallback),
       validateIdToken = (\<lambda>token opts. Some issuer_mismatch),
       getSigningKey = (\<lambda>client k. JwksNoCallback) \<rparr>"





text \<open>An exchange that succeeds with \<^verbatim>\<open>null\<close> for a response.\<close>

definition null_response_env :: env where
  "null_response_env = tampered_env \<lparr> oauth_create := (\<lambda>params data. Fulfilled Null) \<rparr>"

text \<open>An error of the transport that carries the request it sent.\<close>

definition leaking_error :: "string \<Rightarrow> jsval" where
  "leaking_error header_value =
     Obj [(''message'', Str ''Unauthorized''),
          (''originalError'',
             Obj [(''response'',
                Obj [(''request'',
                   Obj [(''_header'',
                      Obj [(''accept'', Str ''application/json''),
                           (''authorization'', Str header_value)])])])])]"

section \<open>Properties of RolesManager\<close>

lemma js_or_readable: "get_prop (js_or p (Obj [])) k \<noteq> Inl e"
  by (cases p) (auto simp: js_or_def)

lemma check_role_id_string:
  "get_prop params ''id'' = Inr (Str s) \<Longrightarrow> s \<noteq> [] \<Longrightarrow> check_role_id params = None"
  by (simp add: check_role_id_def)

lemma check_role_id_invalid:
  assumes "get_prop params ''id'' = Inr i"
      and "i = Undefined \<or> i = Null \<or> typeof i \<noteq> ''string''"
  shows "check_role_id params =
           Some (ArgumentError (if truthy i then ''The role Id has to be a string''
                                else ''The roleId passed in params cannot be null or undefined''))"
  using assms by (auto simp: check_role_id_def)

text \<open>
  Claim C7. For every call of \<^verbatim>\<open>assignUsers\<close> whose \<^verbatim>\<open>params.id\<close> is a valid
  (non-empty) string: with a callback function the call goes to \<^verbatim>\<open>create\<close> of the
  permissions sub-resource, with the callback as third argument; with no callback (or
  with anything that is not a function) it goes to \<^verbatim>\<open>create\<close> of the users
  sub-resource, whose result (its promise) is what \<^verbatim>\<open>assignUsers\<close> returns.
\<close>

theorem assignUsers_targets:
  assumes "get_prop (js_or params (Obj [])) ''id'' = Inr (Str s)" and "s \<noteq> []"
  shows "assignUsers params data (Fun f) =
           Delegates Permissions ''create'' [js_or params (Obj []), js_or data (Obj []), Fun f]
       \<and> assignUsers params data Undefined =
           Delegates Users ''create'' [js_or params (Obj []), js_or data (Obj [])]
       \<and> (\<not> instanceof_Function cb \<longrightarrow>
            assignUsers params data cb =
              Delegates Users ''create'' [js_or params (Obj []), js_or data (Obj [])])"
  using check_role_id_string [OF assms]
  by (simp add: assignUsers_def Let_def)

theorem assignUsers_targets_witness:
  "assignUsers (Obj [(''id'', Str ''rol_1'')]) (Obj [(''users'', Arr [Str ''u1''])]) (Fun ''cb'') =
     Delegates Permissions ''create''
       [Obj [(''id'', Str ''rol_1'')], Obj [(''users'', Arr [Str ''u1''])], Fun ''cb'']
   \<and> assignUsers (Obj [(''id'', Str ''rol_1'')]) (Obj [(''users'', Arr [Str ''u1''])]) Undefined =
     Delegates Users ''create'' [Obj [(''id'', Str ''rol_1'')], Obj [(''users'', Arr [Str ''u1''])]]"
proof -
  have id: "get_prop (js_or (Obj [(''id'', Str ''rol_1'')]) (Obj [])) ''id'' = Inr (Str ''rol_1'')"
    by (simp add: js_or_def)
  have ne: "''rol_1'' \<noteq> []"
    by simp
  from assignUsers_targets [OF id ne, of "Obj [(''users'', Arr [Str ''u1''])]" "''cb''" Undefined]
  show ?thesis
    by (simp add: js_or_def)
qed

text \<open>
  Claim C9. For every call of \<^verbatim>\<open>addPermissions\<close>, \<^verbatim>\<open>removePermissions\<close> or
  \<^verbatim>\<open>assignUsers\<close> whose \<^verbatim>\<open>params.id\<close> is \<^verbatim>\<open>undefined\<close>, \<^verbatim>\<open>null\<close> or not a
  string, the call throws an ArgumentError at entry, whatever the callback argument is;
  since the result is the throw, no sub-resource method is called. (\<^verbatim>\<open>params\<close> is
  read after \<^verbatim>\<open>params || {}\<close>, so a missing \<^verbatim>\<open>params\<close> has an \<^verbatim>\<open>undefined\<close> id.)
\<close>

theorem invalid_role_id_throws:
  assumes "get_prop (js_or params (Obj [])) ''id'' = Inr i"
      and "i = Undefined \<or> i = Null \<or> typeof i \<noteq> ''string''"
  shows "let thrown = Throws (ArgumentError
                        (if truthy i then ''The role Id has to be a string''
                         else ''The roleId passed in params cannot be null or undefined''))
         in addPermissions params data cb = thrown
          \<and> removePermissions params data cb = thrown
          \<and> assignUsers params data cb = thrown"
  using check_role_id_invalid [OF assms]
  by (simp add: addPermissions_def removePermissions_def assignUsers_def Let_def)

theorem invalid_role_id_throws_witness:
  "addPermissions (Obj [(''id'', Num 42)]) (Obj []) (Fun ''cb'') =
     Throws (ArgumentError ''The role Id has to be a string'')
   \<and> removePermissions (Obj [(''id'', Num 42)]) (Obj []) (Fun ''cb'') =
     Throws (ArgumentError ''The role Id has to be a string'')
   \<and> assignUsers (Obj [(''id'', Num 42)]) (Obj []) (Fun ''cb'') =
     Throws (ArgumentError ''The role Id has to be a string'')"
proof -
  have id: "get_prop (js_or (Obj [(''id'', Num 42)]) (Obj [])) ''id'' = Inr (Num 42)"
    by (simp add: js_or_def)
  have bad: "Num 42 = Undefined \<or> Num 42 = Null \<or> typeof (Num 42) \<noteq> ''string''"
    by simp
  from invalid_role_id_throws [OF id bad, of "Obj []" "Fun ''cb''"]
  show ?thesis
    by (simp add: Let_def)
qed

section \<open>Properties of create\<close>

lemma str_includes_refl: "str_includes m m"
  by (cases m) simp_all

lemma str_includes_append: "str_includes (p @ m) m"
  by (induction p) (simp_all add: str_includes_refl)

lemma hs256_ignored_secret_callback_error:
  "hs256_ignored (secret_callback_error (Obj [(''message'', Str HS256_IGNORE_VALIDATION_MESSAGE)]))"
  using str_includes_append [of "''error in secret or public key callback: ''" HS256_IGNORE_VALIDATION_MESSAGE]
  by (simp add: hs256_ignored_def secret_callback_error_def read_prop_def)

lemma getKey_hs256_no_secret:
  "alg header = Str ''HS256'' \<Longrightarrow> \<not> truthy (clientSecret this) \<Longrightarrow>
   getKey E this header = KeyError (Obj [(''message'', Str HS256_IGNORE_VALIDATION_MESSAGE)])"
  by (simp add: getKey_def)

lemma validate_calls_verify_callback:
  "set (validate_calls (verify_callback E token opts r err)) \<subseteq> {(token, opts)}"
  by (auto simp: verify_callback_def settle_def Let_def split: option.splits if_splits)

lemma calls_on_exchanged:
  assumes "(token, opts) \<in> set (verify_calls (on_exchanged E this data r))
                           \<union> set (validate_calls (on_exchanged E this data r))"
  shows "verification_options this data = Inr opts \<and> get_prop r ''id_token'' = Inr token"
  using assms validate_calls_verify_callback [of E _ _ r]
  by (auto simp: on_exchanged_def settle_def split: if_splits sum.splits verify_outcome.splits)

lemma calls_createAndValidate:
  assumes "(token, opts) \<in> set (verify_calls (createAndValidate E this params data))
                           \<union> set (validate_calls (createAndValidate E this params data))"
  shows "verification_options this data = Inr opts"
  using assms calls_on_exchanged [of token opts E this data]
  by (auto simp: createAndValidate_def settle_def split: promise.splits)

lemma constructed_fields:
  assumes "OAUthWithIDTokenValidation oauth_arg options = Inr this"
  shows "domain this = read_prop options ''domain''"
    and "clientId this = read_prop options ''clientId''"
    and "supportedAlgorithms this =
           js_or (read_prop options ''supportedAlgorithms'') (Arr [Str ''HS256'', Str ''RS256''])"
    and "jwksUri (jwksClient this) =
           ''https://'' @ js_to_string (read_prop options ''domain'') @ ''/.well-known/jwks.json''"
  using assms
  by (auto simp: OAUthWithIDTokenValidation_def Let_def split: if_splits)

lemma verification_options_fields:
  assumes "verification_options this data = Inr opts"
  shows "algorithms opts = supportedAlgorithms this"
    and "audience opts = clientId this"
    and "issuer opts = ''https://'' @ js_to_string (domain this) @ ''/''"
    and "organization opts = (if truthy (read_prop data ''organization'') then Some (read_prop data ''organization'') else None)"
    and "nonce opts = (if truthy (read_prop data ''nonce'') then Some (read_prop data ''nonce'') else None)"
    and "maxAge opts = (if truthy (read_prop data ''maxAge'') then Some (read_prop data ''maxAge'') else None)"
  using assms
  by (auto simp: verification_options_def read_prop_def split: sum.splits)




text \<open>
  Claim C2, as amended. For every successful exchange that returns an identity token
  whose header names HS256 while no client secret is configured (bypass flag unset):
  \<^verbatim>\<open>getKey\<close> hands back the missing-secret message; when \<^verbatim>\<open>jwt.verify\<close> reports that
  failure as the library does, it is downgraded to one console warning and does not fail
  the call by itself, so the signature stays unverified; \<^verbatim>\<open>validateIdToken\<close> still
  runs on the token, and the call resolves with the unchanged response when it accepts the
  token and rejects with its error when it throws.
\<close>

theorem hs256_without_secret:
  assumes "oauth_create E params data = Fulfilled r"
      and "\<not> truthy (bypassIdTokenValidation this)"
      and "get_prop r ''id_token'' = Inr token" and "truthy token"
      and "verification_options this data = Inr opts"
      and "alg header = Str ''HS256''" and "\<not> truthy (clientSecret this)"
      and "\<And>k. getKey E this header = KeyError k \<Longrightarrow>
             jwt_verify E token (getKey E this) opts = Callback (Some (secret_callback_error k))"
  shows "getKey E this header = KeyError (Obj [(''message'', Str HS256_IGNORE_VALIDATION_MESSAGE)])
       \<and> createAndValidate E this params data =
           \<lparr> settled = (case validateIdToken E token opts of
                          Some idTokenError \<Rightarrow> Rejected idTokenError
                        | None \<Rightarrow> Fulfilled r),
             warnings = [HS256_IGNORE_VALIDATION_MESSAGE],
             verify_calls = [(token, opts)],
             validate_calls = [(token, opts)] \<rparr>"
proof -
  let ?k = "Obj [(''message'', Str HS256_IGNORE_VALIDATION_MESSAGE)]"
  have key: "getKey E this header = KeyError ?k"
    using assms(6,7) by (rule getKey_hs256_no_secret)
  have ver: "jwt_verify E token (getKey E this) opts = Callback (Some (secret_callback_error ?k))"
    using assms(8) key by blast
  have "createAndValidate E this params data =
          (verify_callback E token opts r (Some (secret_callback_error ?k)))
            \<lparr> verify_calls := [(token, opts)] \<rparr>"
    using assms(1-5) ver by (simp add: createAndValidate_def on_exchanged_def)
  also have "\<dots> = \<lparr> settled = (case validateIdToken E token opts of
                                Some idTokenError \<Rightarrow> Rejected idTokenError
                              | None \<Rightarrow> Fulfilled r),
                     warnings = [HS256_IGNORE_VALIDATION_MESSAGE],
                     verify_calls = [(token, opts)],
                     validate_calls = [(token, opts)] \<rparr>"
    using hs256_ignored_secret_callback_error
    by (simp add: verify_callback_def settle_def split: option.splits)
  finally show ?thesis
    using key by simp
qed

theorem hs256_without_secret_witness:
  "createAndValidate (hs256_env \<lparr> validateIdToken := (\<lambda>token opts. None) \<rparr>) example_client Undefined (Obj []) =
     \<lparr> settled = Fulfilled example_response,
       warnings = [HS256_IGNORE_VALIDATION_MESSAGE],
       verify_calls = [(Str ''h.p.s'', example_options_built)],
       validate_calls = [(Str ''h.p.s'', example_options_built)] \<rparr>"
proof -
  let ?E = "hs256_env \<lparr> validateIdToken := (\<lambda>token opts. None) \<rparr>"
  have h1: "oauth_create ?E Undefined (Obj []) = Fulfilled example_response"
    by (simp add: hs256_env_def)
  have h2: "\<not> truthy (bypassIdTokenValidation example_client)"
    by (simp add: example_client_def)
  have h3: "get_prop example_response ''id_token'' = Inr (Str ''h.p.s'')"
    by (simp add: example_response_def)
  have h4: "truthy (Str ''h.p.s'')"
    by simp
  have h5: "verification_options example_client (Obj []) = Inr example_options_built"
    by (simp add: verification_options_def example_client_def example_options_built_def)
  have h6: "alg hs256_header = Str ''HS256''"
    by (simp add: hs256_header_def)
  have h7: "\<not> truthy (clientSecret example_client)"
    by (simp add: example_client_def)
  have h8: "\<And>k. getKey ?E example_client hs256_header = KeyError k \<Longrightarrow>
             jwt_verify ?E (Str ''h.p.s'') (getKey ?E example_client) example_options_built
               = Callback (Some (secret_callback_error k))"
    by (simp add: hs256_env_def)
  from hs256_without_secret [OF h1 h2 h3 h4 h5 h6 h7 h8]
  show ?thesis
    by (simp add: hs256_env_def)
qed

text \<open>
  The claim as first stated (the call succeeds whenever the secret is missing) fails
  where the claims validator refuses the token: the call rejects.
\<close>

theorem hs256_call_rejected:
  "alg hs256_header = Str ''HS256''
   \<and> \<not> truthy (clientSecret example_client)
   \<and> oauth_create hs256_env Undefined (Obj []) = Fulfilled example_response
   \<and> get_prop example_response ''id_token'' = Inr (Str ''h.p.s'')
   \<and> jwt_verify hs256_env (Str ''h.p.s'') (getKey hs256_env example_client) example_options_built =
       Callback (Some (secret_callback_error (Obj [(''message'', Str HS256_IGNORE_VALIDATION_MESSAGE)])))
   \<and> settled (createAndValidate hs256_env example_client Undefined (Obj [])) = Rejected issuer_mismatch"
proof -
  have key: "getKey hs256_env example_client hs256_header =
               KeyError (Obj [(''message'', Str HS256_IGNORE_VALIDATION_MESSAGE)])"
    by (rule getKey_hs256_no_secret) (simp_all add: hs256_header_def example_client_def)
  have ver: "jwt_verify hs256_env (Str ''h.p.s'') (getKey hs256_env example_client) example_options_built =
       Callback (Some (secret_callback_error (Obj [(''message'', Str HS256_IGNORE_VALIDATION_MESSAGE)])))"
  proof -
    have "jwt_verify hs256_env = (\<lambda>token key opts.
            case key hs256_header of
              KeyError k \<Rightarrow> Callback (Some (secret_callback_error k))
            | KeyNoCallback \<Rightarrow> NoCallback
            | KeyValue v \<Rightarrow> Callback None
            | KeyThrows e \<Rightarrow> NoCallback)"
      by (simp add: hs256_env_def)
    then show ?thesis
      by (simp add: key)
  qed
  have opts: "verification_options example_client (Obj []) = Inr example_options_built"
    by (simp add: verification_options_def example_client_def example_options_built_def)
  have ex: "oauth_create hs256_env Undefined (Obj []) = Fulfilled example_response"
    by (simp add: hs256_env_def)
  have nobypass: "\<not> truthy (bypassIdTokenValidation example_client)"
    by (simp add: example_client_def)
  have tok: "get_prop example_response ''id_token'' = Inr (Str ''h.p.s'')"
    by (simp add: example_response_def)
  have val: "validateIdToken hs256_env (Str ''h.p.s'') example_options_built = Some issuer_mismatch"
    by (simp add: hs256_env_def)
  have "settled (createAndValidate hs256_env example_client Undefined (Obj [])) = Rejected issuer_mismatch"
    using hs256_ignored_secret_callback_error
    by (simp add: createAndValidate_def on_exchanged_def ex nobypass tok opts ver val
          verify_callback_def settle_def)
  then show ?thesis
    using ver ex tok by (simp add: hs256_header_def example_client_def)
qed

text \<open>
  Claim C4, as amended. For every call of \<^verbatim>\<open>create\<close> where the exchange succeeds
  with a response \<open>r\<close>, if the bypass flag is set, or \<open>r\<close> is neither \<^verbatim>\<open>null\<close> nor
  \<^verbatim>\<open>undefined\<close> and \<^verbatim>\<open>r.id_token\<close> reads as a falsy value, the response is handed
  over unchanged and neither \<^verbatim>\<open>jwt.verify\<close> nor \<^verbatim>\<open>validateIdToken\<close> is called: the
  promise form returns a promise fulfilled with \<open>r\<close>, the callback form calls the
  callback with \<^verbatim>\<open>(null, r)\<close>.
\<close>

theorem passthrough:
  assumes "oauth_create E params data = Fulfilled r"
      and "truthy (bypassIdTokenValidation this)
           \<or> (\<exists>v. get_prop r ''id_token'' = Inr v \<and> \<not> truthy v)"
  shows "createAndValidate E this params data =
           \<lparr> settled = Fulfilled r, warnings = [], verify_calls = [], validate_calls = [] \<rparr>
       \<and> returned (create E this params data Undefined run) = Some (Fulfilled r)
       \<and> callback_calls (create E this params data (Fun f) run) =
           [Null, r] # (case run [Null, r] of None \<Rightarrow> [] | Some e \<Rightarrow> [[e]])"
proof -
  have "on_exchanged E this data r = settle (Fulfilled r)"
    using assms(2) by (auto simp: on_exchanged_def)
  then have v: "createAndValidate E this params data = settle (Fulfilled r)"
    using assms(1) by (simp add: createAndValidate_def)
  then show ?thesis
    by (simp add: create_def invoke_def settle_def Let_def split: option.splits)
qed

theorem passthrough_witness:
  "createAndValidate (tampered_env \<lparr> oauth_create := (\<lambda>params data. Fulfilled (Obj [(''access_token'', Str ''at'')])) \<rparr>)
       example_client Undefined (Obj []) =
     \<lparr> settled = Fulfilled (Obj [(''access_token'', Str ''at'')]), warnings = [],
       verify_calls = [], validate_calls = [] \<rparr>
   \<and> createAndValidate tampered_env (example_client \<lparr> bypassIdTokenValidation := Bool True \<rparr>) Undefined (Obj []) =
     \<lparr> settled = Fulfilled example_response, warnings = [], verify_calls = [], validate_calls = [] \<rparr>"
proof -
  let ?E = "tampered_env \<lparr> oauth_create := (\<lambda>params data. Fulfilled (Obj [(''access_token'', Str ''at'')])) \<rparr>"
  have a1: "oauth_create ?E Undefined (Obj []) = Fulfilled (Obj [(''access_token'', Str ''at'')])"
    by simp
  have a2: "truthy (bypassIdTokenValidation example_client)
            \<or> (\<exists>v. get_prop (Obj [(''access_token'', Str ''at'')]) ''id_token'' = Inr v \<and> \<not> truthy v)"
    by simp
  have b1: "oauth_create tampered_env Undefined (Obj []) = Fulfilled example_response"
    by (simp add: tampered_env_def)
  have b2: "truthy (bypassIdTokenValidation (example_client \<lparr> bypassIdTokenValidation := Bool True \<rparr>))
            \<or> (\<exists>v. get_prop example_response ''id_token'' = Inr v \<and> \<not> truthy v)"
    by simp
  from passthrough [OF a1 a2] passthrough [OF b1 b2]
  show ?thesis
    by simp
qed

text \<open>
  The claim as first stated (a response that carries no identity token is always handed
  over) fails for a response that is \<^verbatim>\<open>null\<close>: with the bypass flag unset the read of
  \<^verbatim>\<open>r.id_token\<close> raises, and the call rejects with the TypeError.
\<close>

theorem null_response_rejected:
  "oauth_create null_response_env Undefined (Obj []) = Fulfilled Null
   \<and> \<not> truthy (bypassIdTokenValidation example_client)
   \<and> createAndValidate null_response_env example_client Undefined (Obj []) =
       \<lparr> settled = Rejected (Obj [(''name'', Str ''TypeError''),
                                  (''message'', Str ''Cannot read properties of null (reading id_token)'')]),
         warnings = [], verify_calls = [], validate_calls = [] \<rparr>"
proof -
  have ex: "oauth_create null_response_env Undefined (Obj []) = Fulfilled Null"
    by (simp add: null_response_env_def)
  have nobypass: "\<not> truthy (bypassIdTokenValidation example_client)"
    by (simp add: example_client_def)
  show ?thesis
    by (simp add: createAndValidate_def on_exchanged_def ex nobypass settle_def)
qed

text \<open>
  Claim C5, as amended. For every call of \<^verbatim>\<open>jwt.verify\<close> or \<^verbatim>\<open>validateIdToken\<close>
  that \<^verbatim>\<open>create\<close> makes on a client built by the constructor from \<open>options\<close>, the
  options handed over have the issuer \<^verbatim>\<open>https://<domain>/\<close>, the configured client id
  as audience, and as algorithms the configured list when it is truthy and
  \<^verbatim>\<open>['HS256', 'RS256']\<close> otherwise; each of \<^verbatim>\<open>organization\<close>, \<^verbatim>\<open>nonce\<close> and
  \<^verbatim>\<open>maxAge\<close> is included, with the value of the request data, exactly when that value
  is truthy.
\<close>

theorem verification_options_built:
  assumes "OAUthWithIDTokenValidation oauth_arg options = Inr this"
      and "(token, opts) \<in> set (verify_calls (createAndValidate E this params data))
                           \<union> set (validate_calls (createAndValidate E this params data))"
  shows "issuer opts = ''https://'' @ js_to_string (read_prop options ''domain'') @ ''/''
       \<and> audience opts = read_prop options ''clientId''
       \<and> algorithms opts =
           (if truthy (read_prop options ''supportedAlgorithms'')
            then read_prop options ''supportedAlgorithms''
            else Arr [Str ''HS256'', Str ''RS256''])
       \<and> organization opts =
           (if truthy (read_prop data ''organization'') then Some (read_prop data ''organization'') else None)
       \<and> nonce opts =
           (if truthy (read_prop data ''nonce'') then Some (read_prop data ''nonce'') else None)
       \<and> maxAge opts =
           (if truthy (read_prop data ''maxAge'') then Some (read_prop data ''maxAge'') else None)"
proof -
  have opts: "verification_options this data = Inr opts"
    using assms(2) by (rule calls_createAndValidate)
  show ?thesis
    using verification_options_fields [OF opts] constructed_fields [OF assms(1)]
    by (simp add: js_or_def)
qed

theorem verification_options_built_witness:
  "verify_calls (createAndValidate tampered_env example_client Undefined (Obj [(''nonce'', Str ''n-1'')])) =
     [(Str ''h.p.s'', example_options_built \<lparr> nonce := Some (Str ''n-1'') \<rparr>)]
   \<and> issuer (example_options_built \<lparr> nonce := Some (Str ''n-1'') \<rparr>) = ''https://tenant.auth0.com/''
   \<and> nonce (example_options_built \<lparr> nonce := Some (Str ''n-1'') \<rparr>) = Some (Str ''n-1'')
   \<and> organization (example_options_built \<lparr> nonce := Some (Str ''n-1'') \<rparr>) = None"
proof -
  let ?data = "Obj [(''nonce'', Str ''n-1'')]"
  let ?opts = "example_options_built \<lparr> nonce := Some (Str ''n-1'') \<rparr>"
  have built: "OAUthWithIDTokenValidation (Obj []) example_options = Inr example_client"
    by (simp add: OAUthWithIDTokenValidation_def example_options_def example_client_def
          read_prop_def js_or_def jwksClient_module_def)
  have o: "verification_options example_client ?data = Inr ?opts"
    by (simp add: verification_options_def example_client_def example_options_built_def)
  have calls: "verify_calls (createAndValidate tampered_env example_client Undefined ?data) =
                 [(Str ''h.p.s'', ?opts)]"
    by (simp add: createAndValidate_def on_exchanged_def o tampered_env_def example_response_def
          example_client_def [THEN arg_cong [of _ _ bypassIdTokenValidation]])
  then have mem: "(Str ''h.p.s'', ?opts)
      \<in> set (verify_calls (createAndValidate tampered_env example_client Undefined ?data))
        \<union> set (validate_calls (createAndValidate tampered_env example_client Undefined ?data))"
    by simp
  from verification_options_built [OF built mem] calls
  show ?thesis
    by (simp add: example_options_def read_prop_def)
qed

text \<open>
  The claim as first stated (a field is included exactly when it is present in the
  request data) fails for a field that is present with a falsy value: an empty
  \<^verbatim>\<open>nonce\<close> is left out of the options.
\<close>

theorem empty_nonce_left_out:
  "map_of [(''nonce'', Str [])] ''nonce'' = Some (Str [])
   \<and> verify_calls (createAndValidate tampered_env example_client Undefined (Obj [(''nonce'', Str [])])) =
       [(Str ''h.p.s'', example_options_built)]
   \<and> nonce example_options_built = None"
proof -
  have o: "verification_options example_client (Obj [(''nonce'', Str [])]) = Inr example_options_built"
    by (simp add: verification_options_def example_client_def example_options_built_def)
  have "verify_calls (createAndValidate tampered_env example_client Undefined (Obj [(''nonce'', Str [])])) =
          [(Str ''h.p.s'', example_options_built)]"
    by (simp add: createAndValidate_def on_exchanged_def o tampered_env_def example_response_def
          example_client_def [THEN arg_cong [of _ _ bypassIdTokenValidation]])
  then show ?thesis
    by (simp add: example_options_built_def)
qed

text \<open>
  Claim C10. The constructor does not check \<^verbatim>\<open>options.domain\<close>: for every options
  object without a \<^verbatim>\<open>domain\<close> (given a wrapped client, and a \<^verbatim>\<open>jwksClient\<close> option
  that is absent, falsy or a function), construction succeeds, the stored domain is
  \<^verbatim>\<open>undefined\<close>, the JWKS client is made for the URL
  \<^verbatim>\<open>https://undefined/.well-known/jwks.json\<close>, and every later call of \<^verbatim>\<open>jwt.verify\<close>
  or \<^verbatim>\<open>validateIdToken\<close> gets the issuer \<^verbatim>\<open>https://undefined/\<close>.
\<close>

theorem missing_domain_undefined:
  assumes "truthy oauth_arg"
      and "map_of kvs ''domain'' = None"
      and "\<not> truthy (read_prop (Obj kvs) ''jwksClient'')
           \<or> instanceof_Function (read_prop (Obj kvs) ''jwksClient'')"
  shows "\<exists>this. OAUthWithIDTokenValidation oauth_arg (Obj kvs) = Inr this
           \<and> domain this = Undefined
           \<and> jwksUri (jwksClient this) = ''https://undefined/.well-known/jwks.json''
           \<and> (\<forall>E params data token opts.
                 (token, opts) \<in> set (verify_calls (createAndValidate E this params data))
                                 \<union> set (validate_calls (createAndValidate E this params data))
                 \<longrightarrow> issuer opts = ''https://undefined/'')"
proof -
  have dom: "read_prop (Obj kvs) ''domain'' = Undefined"
    using assms(2) by (simp add: read_prop_def)
  have fn: "instanceof_Function (js_or (read_prop (Obj kvs) ''jwksClient'') jwksClient_module)"
    using assms(3) by (auto simp: js_or_def jwksClient_module_def)
  obtain this where built: "OAUthWithIDTokenValidation oauth_arg (Obj kvs) = Inr this"
    using assms(1) fn by (simp add: OAUthWithIDTokenValidation_def Let_def)
  have d: "domain this = Undefined"
    using constructed_fields(1) [OF built] dom by simp
  have u: "jwksUri (jwksClient this) = ''https://undefined/.well-known/jwks.json''"
    using constructed_fields(4) [OF built] dom by simp
  have i: "issuer opts = ''https://undefined/''"
    if "(token, opts) \<in> set (verify_calls (createAndValidate E this params data))
                        \<union> set (validate_calls (createAndValidate E this params data))"
    for E params data token opts
    using verification_options_fields(3) [OF calls_createAndValidate [OF that]] d by simp
  show ?thesis
    using built d u i by blast
qed

theorem missing_domain_undefined_witness:
  "\<exists>this. OAUthWithIDTokenValidation (Obj []) (Obj [(''clientId'', Str ''client-1'')]) = Inr this
     \<and> domain this = Undefined
     \<and> jwksUri (jwksClient this) = ''https://undefined/.well-known/jwks.json''"
proof -
  have h1: "truthy (Obj [])"
    by simp
  have h2: "map_of [(''clientId'', Str ''client-1'')] ''domain'' = None"
    by simp
  have h3: "\<not> truthy (read_prop (Obj [(''clientId'', Str ''client-1'')]) ''jwksClient'')
            \<or> instanceof_Function (read_prop (Obj [(''clientId'', Str ''client-1'')]) ''jwksClient'')"
    by (simp add: read_prop_def)
  from missing_domain_undefined [OF h1 h2 h3]
  show ?thesis
    by blast
qed

section \<open>Callback and promise forms\<close>

text \<open>
  Claim C8, as amended. \<^verbatim>\<open>create\<close> called without a callback returns the promise of
  \<^verbatim>\<open>createAndValidate\<close> and calls nothing; called with a callback function that
  returns normally, it returns \<^verbatim>\<open>undefined\<close> and calls the callback exactly once when
  that promise settles, with \<^verbatim>\<open>(null, data)\<close> for the data the promise is fulfilled
  with or with the error it is rejected with (and not at all while it is pending).
  \<^verbatim>\<open>addPermissions\<close> and \<^verbatim>\<open>removePermissions\<close>, when the checks of \<^verbatim>\<open>params.id\<close>
  pass, make the same call of the same sub-resource method in both forms, the callback
  being passed on as third argument; when a check fails, they and \<^verbatim>\<open>assignUsers\<close>
  throw the ArgumentError in both forms, so that neither a callback nor a promise reports
  it.
\<close>

theorem dual_mode:
  "create E this params data Undefined run =
     \<lparr> returned = Some (settled (createAndValidate E this params data)),
       callback_calls = [], unhandled = None,
       work = createAndValidate E this params data \<rparr>
   \<and> ((\<forall>args. run args = None) \<longrightarrow>
        create E this params data (Fun f) run =
          \<lparr> returned = None,
            callback_calls =
              (case settled (createAndValidate E this params data) of
                 Fulfilled r \<Rightarrow> [[Null, r]]
               | Rejected e \<Rightarrow> [[e]]
               | Pending \<Rightarrow> []),
            unhandled = None,
            work = createAndValidate E this params data \<rparr>)
   \<and> (check_role_id (js_or ps (Obj [])) = None \<longrightarrow>
        addPermissions ps d (Fun f) =
          Delegates Permissions ''create'' [js_or ps (Obj []), js_or d (Obj []), Fun f]
        \<and> addPermissions ps d Undefined =
          Delegates Permissions ''create'' [js_or ps (Obj []), js_or d (Obj [])]
        \<and> removePermissions ps d (Fun f) =
          Delegates Permissions ''delete'' [js_or ps (Obj []), js_or d (Obj []), Fun f]
        \<and> removePermissions ps d Undefined =
          Delegates Permissions ''delete'' [js_or ps (Obj []), js_or d (Obj [])])
   \<and> (check_role_id (js_or ps (Obj [])) = Some x \<longrightarrow>
        addPermissions ps d cb = Throws x
        \<and> removePermissions ps d cb = Throws x
        \<and> assignUsers ps d cb = Throws x)"
proof -
  have promise_form: "create E this params data Undefined run =
     \<lparr> returned = Some (settled (createAndValidate E this params data)),
       callback_calls = [], unhandled = None,
       work = createAndValidate E this params data \<rparr>"
    by (simp add: create_def Let_def)
  have callback_form: "create E this params data (Fun f) run =
          \<lparr> returned = None,
            callback_calls =
              (case settled (createAndValidate E this params data) of
                 Fulfilled r \<Rightarrow> [[Null, r]]
               | Rejected e \<Rightarrow> [[e]]
               | Pending \<Rightarrow> []),
            unhandled = None,
            work = createAndValidate E this params data \<rparr>"
    if "\<forall>args. run args = None"
    using that by (simp add: create_def invoke_def Let_def split: promise.splits)
  have managers: "addPermissions ps d (Fun f) =
          Delegates Permissions ''create'' [js_or ps (Obj []), js_or d (Obj []), Fun f]
        \<and> addPermissions ps d Undefined =
          Delegates Permissions ''create'' [js_or ps (Obj []), js_or d (Obj [])]
        \<and> removePermissions ps d (Fun f) =
          Delegates Permissions ''delete'' [js_or ps (Obj []), js_or d (Obj []), Fun f]
        \<and> removePermissions ps d Undefined =
          Delegates Permissions ''delete'' [js_or ps (Obj []), js_or d (Obj [])]"
    if "check_role_id (js_or ps (Obj [])) = None"
    using that by (simp add: addPermissions_def removePermissions_def Let_def)
  have throws: "addPermissions ps d cb = Throws x
        \<and> removePermissions ps d cb = Throws x
        \<and> assignUsers ps d cb = Throws x"
    if "check_role_id (js_or ps (Obj [])) = Some x"
    using that by (simp add: addPermissions_def removePermissions_def assignUsers_def Let_def)
  show ?thesis
    using promise_form callback_form managers throws by blast
qed

theorem dual_mode_witness:
  "create tampered_env example_client Undefined (Obj []) (Fun ''cb'') (\<lambda>args. None) =
     \<lparr> returned = None,
       callback_calls = [[Obj [(''name'', Str ''JsonWebTokenError''), (''message'', Str ''invalid signature'')]]],
       unhandled = None,
       work = createAndValidate tampered_env example_client Undefined (Obj []) \<rparr>
   \<and> addPermissions (Obj [(''id'', Str ''rol_1'')]) Undefined (Fun ''cb'') =
       Delegates Permissions ''create'' [Obj [(''id'', Str ''rol_1'')], Obj [], Fun ''cb'']
   \<and> addPermissions (Obj [(''id'', Str ''rol_1'')]) Undefined Undefined =
       Delegates Permissions ''create'' [Obj [(''id'', Str ''rol_1'')], Obj []]
   \<and> removePermissions Undefined Undefined (Fun ''cb'') =
       Throws (ArgumentError ''The roleId passed in params cannot be null or undefined'')"
proof -
  have quiet: "\<forall>args. (\<lambda>args. None :: jsval option) args = None"
    by simp
  have ok: "check_role_id (js_or (Obj [(''id'', Str ''rol_1'')]) (Obj [])) = None"
    by (simp add: check_role_id_def js_or_def)
  have bad: "check_role_id (js_or Undefined (Obj [])) =
               Some (ArgumentError ''The roleId passed in params cannot be null or undefined'')"
    by (simp add: check_role_id_def js_or_def)
  have s: "settled (createAndValidate tampered_env example_client Undefined (Obj [])) =
     Rejected (Obj [(''name'', Str ''JsonWebTokenError''), (''message'', Str ''invalid signature'')])"
    by (simp add: createAndValidate_def on_exchanged_def verify_callback_def settle_def Let_def
          tampered_env_def example_response_def example_client_def verification_options_def
          hs256_ignored_def HS256_IGNORE_VALIDATION_MESSAGE_def error_obj_def)
  from dual_mode [of tampered_env example_client Undefined "Obj []" "\<lambda>args. None" "''cb''"
      "Obj [(''id'', Str ''rol_1'')]" Undefined]
    dual_mode [of tampered_env example_client Undefined "Obj []" "\<lambda>args. None" "''cb''"
      Undefined Undefined _ "Fun ''cb''"]
    quiet ok bad s
  show ?thesis
    by (simp add: js_or_def)
qed

text \<open>
  The claim as first stated (every operation called without a callback returns a promise
  that carries the error) fails for the argument checks: \<^verbatim>\<open>addPermissions\<close> without
  a role id and without a callback throws, and returns no promise.
\<close>

theorem addPermissions_throws_without_callback:
  "addPermissions (Obj []) (Obj []) Undefined =
     Throws (ArgumentError ''The roleId passed in params cannot be null or undefined'')"
  by (simp add: addPermissions_def check_role_id_def js_or_def)

text \<open>
  The chain \<^verbatim>\<open>then(r => cb(null, r)).catch(e => cb(e))\<close> hands a callback that throws
  on its first call to itself a second time, with what it threw.
\<close>

lemma throwing_callback_called_twice:
  "settled (createAndValidate E this params data) = Fulfilled r \<Longrightarrow> run [Null, r] = Some e \<Longrightarrow>
   callback_calls (create E this params data (Fun f) run) = [[Null, r], [e]]"
  by (simp add: create_def invoke_def Let_def)

section \<open>Properties of Auth0RestClient\<close>

lemma get_path_set_path:
  "get_path v p = Some x \<Longrightarrow> get_path (set_path v p new) p = Some new"
proof (induction v p arbitrary: x rule: get_path.induct)
  case (1 v)
  then show ?case by simp
next
  case (2 kvs k ks)
  then show ?case
    by (auto simp: update_conv' split: option.splits)
qed simp_all

lemma get_path_set_path_other:
  "k \<noteq> k' \<Longrightarrow> get_path (set_path v (k # ks) new) [k'] = get_path v [k']"
  by (cases v) (auto simp: update_conv' split: option.splits)

lemma sanitize_without_request:
  "get_path err authorization_path = None \<Longrightarrow> sanitizeErrorRequestData err = err"
  by (simp add: sanitizeErrorRequestData_def)

text \<open>
  Claim C3. For every failed call whose error carries the outbound request with an
  \<^verbatim>\<open>authorization\<close> header (the provider rejected, or the transport did), whatever
  the token and whatever the value of the header, the call rejects with the sanitized
  error, the header of that error reads \<^verbatim>\<open>[REDACTED]\<close>, and the error's other
  properties, its message among them, are those of the original error.
\<close>

theorem sanitized_authorization_redacted:
  assumes "provider = Rejected err
           \<or> (provider = Fulfilled access_token
               \<and> transport (''Bearer '' @ js_to_string access_token) = Rejected err)"
      and "get_path err authorization_path = Some credential"
  shows "authenticated_call provider transport = Rejected (sanitizeErrorRequestData err)
       \<and> get_path (sanitizeErrorRequestData err) authorization_path = Some (Str ''[REDACTED]'')
       \<and> (k \<noteq> ''originalError'' \<longrightarrow>
            get_path (sanitizeErrorRequestData err) [k] = get_path err [k])"
proof -
  have call: "authenticated_call provider transport = Rejected (sanitizeErrorRequestData err)"
    using assms(1) by (auto simp: authenticated_call_def)
  have san: "sanitizeErrorRequestData err = set_path err authorization_path (Str REDACTED)"
    using assms(2) by (simp add: sanitizeErrorRequestData_def)
  have red: "get_path (sanitizeErrorRequestData err) authorization_path = Some (Str ''[REDACTED]'')"
    using get_path_set_path [OF assms(2), of "Str REDACTED"] san by (simp add: REDACTED_def)
  have rest: "get_path (sanitizeErrorRequestData err) [k] = get_path err [k]" if "k \<noteq> ''originalError''"
    using that get_path_set_path_other [of "''originalError''" k err]
    by (simp add: san authorization_path_def)
  show ?thesis
    using call red rest by blast
qed

theorem sanitized_authorization_redacted_witness:
  "authenticated_call (Fulfilled (Str ''access_token'')) (\<lambda>h. Rejected (leaking_error h)) =
     Rejected (leaking_error ''[REDACTED]'')
   \<and> get_path (leaking_error ''[REDACTED]'') [''message''] = Some (Str ''Unauthorized'')"
proof -
  have h1: "Fulfilled (Str ''access_token'') = Rejected (leaking_error ''Bearer access_token'')
            \<or> (Fulfilled (Str ''access_token'') = Fulfilled (Str ''access_token'')
               \<and> (\<lambda>h. Rejected (leaking_error h)) (''Bearer '' @ js_to_string (Str ''access_token''))
                   = Rejected (leaking_error ''Bearer access_token''))"
    by simp
  have h2: "get_path (leaking_error ''Bearer access_token'') authorization_path = Some (Str ''Bearer access_token'')"
    by (simp add: leaking_error_def authorization_path_def)
  have s: "sanitizeErrorRequestData (leaking_error ''Bearer access_token'') = leaking_error ''[REDACTED]''"
    by (simp add: sanitizeErrorRequestData_def leaking_error_def authorization_path_def REDACTED_def)
  have m: "get_path (leaking_error ''Bearer access_token'') [''message''] = Some (Str ''Unauthorized'')"
    by (simp add: leaking_error_def)
  from sanitized_authorization_redacted
         [of "Fulfilled (Str ''access_token'')" "leaking_error ''Bearer access_token''"
             "Str ''access_token''" "\<lambda>h. Rejected (leaking_error h)" "Str ''Bearer access_token''"
             "''message''", OF h1 h2] s m
  show ?thesis
    by simp
qed

lemma alphanumeric_hex_digit: "n < 16 \<Longrightarrow> alphanumeric (hex_digit n)"
  by (auto simp: alphanumeric_def hex_digit_def char_of_eq_iff Let_def)

lemma percent_encode_char_safe:
  "d \<in> set (percent_encode_char c) \<Longrightarrow> unreserved d \<or> d = CHR ''%''"
proof -
  assume d: "d \<in> set (percent_encode_char c)"
  have "(of_char c :: nat) < 256"
    by simp
  then have hi: "(of_char c :: nat) div 16 < 16"
    by arith
  have lo: "(of_char c :: nat) mod 16 < 16"
    by simp
  show ?thesis
    using d alphanumeric_hex_digit [OF hi] alphanumeric_hex_digit [OF lo]
    by (auto simp: percent_encode_char_def unreserved_def split: if_splits)
qed

lemma encode_strict_safe: "d \<in> set (encode_strict s) \<Longrightarrow> unreserved d \<or> d = CHR ''%''"
  by (auto simp: encode_strict_def dest: percent_encode_char_safe)

lemma substitute_at_end:
  "CHR '':'' \<notin> set pre \<Longrightarrow> substitute '':id'' v (pre @ '':id'') = pre @ v"
  by (induction pre) auto

lemma not_unreserved_bar_slash: "\<not> unreserved CHR ''|'' \<and> \<not> unreserved CHR ''/''"
  by (simp add: unreserved_def alphanumeric_def)

text \<open>
  Claim C6. The identifier placeholder is substituted with the strictly percent-encoded
  identifier: the template \<^verbatim>\<open>/some-resource/:id\<close> with the id \<^verbatim>\<open>auth0|1234/5678\<close>
  yields the path \<^verbatim>\<open>/some-resource/auth0%7C1234%2F5678\<close>; for every identifier, a
  template that ends in the placeholder yields its prefix followed by the encoded
  identifier, in which every character is unreserved or a percent sign, so that neither
  \<^verbatim>\<open>|\<close> nor \<^verbatim>\<open>/\<close> occurs; and the parameters other than the identifier go, as they
  are, to the transport's default query encoding.
\<close>

theorem identifier_percent_encoded:
  "path (encode_request default_query ''/some-resource/:id'' [(''id'', Str ''auth0|1234/5678'')]) =
     ''/some-resource/auth0%7C1234%2F5678''
   \<and> (map_of params ''id'' = Some v \<and> CHR '':'' \<notin> set pre \<longrightarrow>
        path (encode_request default_query (pre @ '':id'') params) = pre @ encode_strict (js_to_string v))
   \<and> (\<forall>c \<in> set (encode_strict s). unreserved c \<or> c = CHR ''%'')
   \<and> CHR ''|'' \<notin> set (encode_strict s) \<and> CHR ''/'' \<notin> set (encode_strict s)
   \<and> query (encode_request default_query template params) =
        default_query (filter (\<lambda>(k, v). k \<noteq> ''id'') params)"
proof -
  have example: "path (encode_request default_query ''/some-resource/:id'' [(''id'', Str ''auth0|1234/5678'')]) =
     ''/some-resource/auth0%7C1234%2F5678''"
    by (simp add: encode_request_def encode_strict_def percent_encode_char_def unreserved_def
          alphanumeric_def hex_digit_def char_of_eq_iff Let_def)
  have general: "path (encode_request default_query (pre @ '':id'') params) = pre @ encode_strict (js_to_string v)"
    if "map_of params ''id'' = Some v" and "CHR '':'' \<notin> set pre"
    using that by (simp add: encode_request_def substitute_at_end)
  have safe: "\<forall>c \<in> set (encode_strict s). unreserved c \<or> c = CHR ''%''"
    using encode_strict_safe by blast
  have bar: "CHR ''|'' \<notin> set (encode_strict s)" and slash: "CHR ''/'' \<notin> set (encode_strict s)"
    using encode_strict_safe [of "CHR ''|''" s] encode_strict_safe [of "CHR ''/''" s]
      not_unreserved_bar_slash
    by auto
  have q: "query (encode_request default_query template params) =
        default_query (filter (\<lambda>(k, v). k \<noteq> ''id'') params)"
    by (simp add: encode_request_def)
  show ?thesis
    using example general safe bar slash q by blast
qed

theorem identifier_percent_encoded_witness:
  "encode_request (\<lambda>ps. concat (map (\<lambda>(k, v). k @ ''='' @ js_to_string v @ ''&'') ps)) ''/some-resource/:id''
       [(''id'', Str ''12/34''), (''other'', Str ''foobar'')] =
     \<lparr> path = ''/some-resource/12%2F34'', query = ''other=foobar&'' \<rparr>"
proof -
  let ?q = "\<lambda>ps. concat (map (\<lambda>(k, v). k @ ''='' @ js_to_string v @ ''&'') ps)"
  let ?params = "[(''id'', Str ''12/34''), (''other'', Str ''foobar'')]"
  have h: "map_of ?params ''id'' = Some (Str ''12/34'') \<and> CHR '':'' \<notin> set ''/some-resource/''"
    by simp
  have enc: "encode_strict ''12/34'' = ''12%2F34''"
    by (simp add: encode_strict_def percent_encode_char_def unreserved_def alphanumeric_def
          hex_digit_def char_of_eq_iff Let_def)
  from identifier_percent_encoded [of ?q ?params "Str ''12/34''" "''/some-resource/''" "''12/34''" "''/some-resource/:id''"]
    h enc
  have "path (encode_request ?q ''/some-resource/:id'' ?params) = ''/some-resource/12%2F34''
      \<and> query (encode_request ?q ''/some-resource/:id'' ?params) = ''other=foobar&''"
    by simp
  then show ?thesis
    by (cases "encode_request ?q ''/some-resource/:id'' ?params") simp
qed

end
